theory Spec2Isabelle
  imports Main
begin

section \<open>The apierrors package of mesos-go: status codes, classified errors\<close>

text \<open>
  The package classifies HTTP responses of the Mesos v1 API by their status code.
  The embedding follows \<^verbatim>\<open>apierrors.go\<close> function by function and keeps its names.
  A method \<^verbatim>\<open>(code Code) Error\<close> is written \<open>Code_Error\<close>, the method
  \<^verbatim>\<open>(e *Error) Error\<close> is written \<open>Error_Error\<close>.
\<close>

subsection \<open>Codes, messages and the error table\<close>

text \<open>
  \<^verbatim>\<open>type Code int\<close>. The code is only ever compared with constants, so no arithmetic can
  overflow and the mathematical integers stand for Go's \<^verbatim>\<open>int\<close>.
\<close>

type_synonym Code = int

definition MsgNotLeader :: string where "MsgNotLeader = ''call sent to a non-leading master''"
definition MsgAuth :: string where "MsgAuth = ''call not authenticated''"
definition MsgUnsubscribed :: string where "MsgUnsubscribed = ''no subscription established''"
definition MsgVersion :: string where "MsgVersion = ''incompatible API version''"
definition MsgMalformed :: string where "MsgMalformed = ''malformed request''"
definition MsgMediaType :: string where "MsgMediaType = ''unsupported media type''"
definition MsgRateLimit :: string where "MsgRateLimit = ''rate limited''"
definition MsgUnavailable :: string where "MsgUnavailable = ''mesos server unavailable''"
definition MsgNotFound :: string where "MsgNotFound = ''mesos http endpoint not found''"

text \<open>
  The constants of \<^verbatim>\<open>net/http\<close> that the package names: StatusTemporaryRedirect = 307,
  StatusUnauthorized = 401, StatusForbidden = 403, StatusConflict = 409,
  StatusBadRequest = 400, StatusNotAcceptable = 406, StatusTooManyRequests = 429,
  StatusServiceUnavailable = 503, StatusNotFound = 404.
\<close>

definition CodeNotLeader :: Code where "CodeNotLeader = 307"
definition CodeNotAuthenticated :: Code where "CodeNotAuthenticated = 401"
definition CodeUnsubscribed :: Code where "CodeUnsubscribed = 403"
definition CodeIncompatibleVersion :: Code where "CodeIncompatibleVersion = 409"
definition CodeMalformedRequest :: Code where "CodeMalformedRequest = 400"
definition CodeUnsupportedMediaType :: Code where "CodeUnsupportedMediaType = 406"
definition CodeRateLimitExceeded :: Code where "CodeRateLimitExceeded = 429"
definition CodeMesosUnavailable :: Code where "CodeMesosUnavailable = 503"
definition CodeNotFound :: Code where "CodeNotFound = 404"

definition MaxSizeDetails :: int where "MaxSizeDetails = 4 * 1024"

text \<open>
  \<^verbatim>\<open>ErrorTable\<close> is a Go map literal; the entries are in the order of the source. Go
  rejects a literal with a repeated key, so the order does not matter for lookup.
\<close>

definition ErrorTable :: "Code \<rightharpoonup> string" where
  "ErrorTable = map_of
     [(CodeNotLeader, MsgNotLeader),
      (CodeMalformedRequest, MsgMalformed),
      (CodeIncompatibleVersion, MsgVersion),
      (CodeUnsubscribed, MsgUnsubscribed),
      (CodeNotAuthenticated, MsgAuth),
      (CodeUnsupportedMediaType, MsgMediaType),
      (CodeNotFound, MsgNotFound),
      (CodeMesosUnavailable, MsgUnavailable),
      (CodeRateLimitExceeded, MsgRateLimit)]"

text \<open>Indexing a Go map with an absent key gives the zero value, here the empty string.\<close>

definition index_string :: "('k \<rightharpoonup> string) \<Rightarrow> 'k \<Rightarrow> string" where
  "index_string m k = (case m k of None \<Rightarrow> [] | Some v \<Rightarrow> v)"

subsection \<open>The error type and Go's error interface\<close>

record Error =
  code :: Code
  message :: string

text \<open>
  A value of the interface \<^verbatim>\<open>error\<close> is nil (\<open>None\<close> below) or carries a dynamic type.
  The package only distinguishes its own \<^verbatim>\<open>*Error\<close> from every other type. A pointer
  \<^verbatim>\<open>*Error\<close> is \<open>Error option\<close>: an interface value holding a nil pointer of type
  \<^verbatim>\<open>*Error\<close> is not the nil interface, and reading a field through it panics.
\<close>

datatype go_error = ApiError "Error option" | OtherError string

datatype panic = NilPointerDereference

definition IsError :: "Code \<Rightarrow> bool" where
  "IsError c = (c \<ge> 300)"

definition Code_Error :: "Code \<Rightarrow> string \<Rightarrow> go_error option" where
  "Code_Error c details =
     (if \<not> IsError c then None
      else
        let err = \<lparr>code = c, message = index_string ErrorTable c\<rparr>;
            err = (if details \<noteq> [] then err\<lparr>message := message err @ '': '' @ details\<rparr> else err)
        in Some (ApiError (Some err)))"

definition Error_Error :: "Error option \<Rightarrow> panic + string" where
  "Error_Error e = (case e of None \<Rightarrow> Inl NilPointerDereference | Some v \<Rightarrow> Inr (message v))"

definition Temporary :: "Error option \<Rightarrow> panic + bool" where
  "Temporary e =
     (case e of
        None \<Rightarrow> Inl NilPointerDereference
      | Some v \<Rightarrow>
          if code v = CodeRateLimitExceeded \<or> code v = CodeMesosUnavailable then Inr True
          else Inr False)"

subsection \<open>The set of codes that indicate subscription loss\<close>

text \<open>
  \<^verbatim>\<open>CodesIndicatingSubscriptionLoss\<close> is a package variable of type
  \<^verbatim>\<open>map[Code]struct{}\<close>, public so that clients add codes to it. The variable is state:
  \<open>SubscriptionLoss\<close> takes its current value. \<open>mk_codes\<close> is the function literal that
  builds the initial value, \<open>add_code\<close> is a client's assignment
  \<^verbatim>\<open>CodesIndicatingSubscriptionLoss[c] = struct{}{}\<close>.
\<close>

type_synonym code_set = "Code \<rightharpoonup> unit"

fun mk_codes_loop :: "Code list \<Rightarrow> code_set \<Rightarrow> code_set" where
  "mk_codes_loop [] result = result"
| "mk_codes_loop (c # codes) result = mk_codes_loop codes (result(c \<mapsto> ()))"

definition mk_codes :: "Code list \<Rightarrow> code_set" where
  "mk_codes codes = mk_codes_loop codes Map.empty"

definition CodesIndicatingSubscriptionLoss :: code_set where
  "CodesIndicatingSubscriptionLoss = mk_codes [CodeUnsubscribed]"

definition add_code :: "Code \<Rightarrow> code_set \<Rightarrow> code_set" where
  "add_code c s = s(c \<mapsto> ())"

definition SubscriptionLoss :: "code_set \<Rightarrow> Error option \<Rightarrow> panic + bool" where
  "SubscriptionLoss s e =
     (case e of
        None \<Rightarrow> Inl NilPointerDereference
      | Some v \<Rightarrow> (case s (code v) of None \<Rightarrow> Inr False | Some _ \<Rightarrow> Inr True))"

definition Matches :: "Code \<Rightarrow> go_error option \<Rightarrow> panic + bool" where
  "Matches c err =
     (case err of
        None \<Rightarrow> Inr (\<not> IsError c)
      | Some (OtherError _) \<Rightarrow> Inr False
      | Some (ApiError None) \<Rightarrow> Inl NilPointerDereference
      | Some (ApiError (Some apiErr)) \<Rightarrow> Inr (code apiErr = c))"

subsection \<open>The response body as a stream\<close>

text \<open>
  \<^verbatim>\<open>res.Body\<close> is an \<^verbatim>\<open>io.ReadCloser\<close> that the HTTP transport supplies. Its state is
  the bytes it has still to deliver (\<open>pending\<close>), what \<^verbatim>\<open>Read\<close> reports once they are
  used up (\<open>ending\<close>: the end of the stream or an I/O failure), how many bytes one call
  hands out at most (\<open>Suc (chunk b)\<close>, so that a read makes progress) and how often
  \<^verbatim>\<open>Close\<close> has been called (\<open>closes\<close>).
\<close>

datatype io_error = EOF | ReadFailure

record ReadCloser =
  pending :: string
  ending :: io_error
  chunk :: nat
  closes :: nat

definition ReadCloser_Read :: "nat \<Rightarrow> ReadCloser \<Rightarrow> (string \<times> io_error option) \<times> ReadCloser" where
  "ReadCloser_Read n b =
     (if pending b = [] then (([], Some (ending b)), b)
      else
        let k = min n (Suc (chunk b))
        in ((take k (pending b), None), b\<lparr>pending := drop k (pending b)\<rparr>))"

definition ReadCloser_Close :: "ReadCloser \<Rightarrow> ReadCloser" where
  "ReadCloser_Close b = b\<lparr>closes := Suc (closes b)\<rparr>"

text \<open>
  \<^verbatim>\<open>io.LimitReader(r, n)\<close> of the standard library: a reader that stops with EOF after
  \<open>n\<close> bytes. Its \<^verbatim>\<open>Read\<close> shortens the caller's buffer to the bytes still allowed.
\<close>

record LimitedReader =
  lr_R :: ReadCloser
  lr_N :: int

definition LimitReader :: "ReadCloser \<Rightarrow> int \<Rightarrow> LimitedReader" where
  "LimitReader r n = \<lparr>lr_R = r, lr_N = n\<rparr>"

definition LimitedReader_Read ::
    "nat \<Rightarrow> LimitedReader \<Rightarrow> (string \<times> io_error option) \<times> LimitedReader" where
  "LimitedReader_Read p l =
     (if lr_N l \<le> 0 then (([], Some EOF), l)
      else
        let p' = (if int p > lr_N l then nat (lr_N l) else p);
            (out, r') = ReadCloser_Read p' (lr_R l)
        in (out, \<lparr>lr_R = r', lr_N = lr_N l - int (length (fst out))\<rparr>))"

text \<open>
  \<^verbatim>\<open>ioutil.ReadAll\<close> of the standard library: read until the reader reports an error,
  and return what was read; the end of the stream is not an error of \<^verbatim>\<open>ReadAll\<close>.
  Each call offers the reader a buffer of \<open>MinRead\<close> free bytes.
\<close>

definition MinRead :: nat where "MinRead = 512"

function ReadAll_loop ::
    "string \<Rightarrow> LimitedReader \<Rightarrow> (string \<times> io_error option) \<times> LimitedReader" where
  "ReadAll_loop buf l =
     (case LimitedReader_Read MinRead l of
        ((bs, Some e), l') \<Rightarrow> ((buf @ bs, if e = EOF then None else Some e), l')
      | ((bs, None), l') \<Rightarrow> ReadAll_loop (buf @ bs) l')"
  by pat_completeness auto

termination
proof (relation "measure (\<lambda>(buf, l). length (pending (lr_R l)))")
  show "wf (measure (\<lambda>(buf, l). length (pending (lr_R l))))"
    by simp
next
  fix buf :: string and l l' :: LimitedReader and out bs e
  assume "(out, l') = LimitedReader_Read MinRead l" and "(bs, e) = out" and "e = None"
  then have rd: "LimitedReader_Read MinRead l = ((bs, None), l')"
    by simp
  then have "0 < lr_N l" and "pending (lr_R l) \<noteq> []"
    by (auto simp: LimitedReader_Read_def ReadCloser_Read_def Let_def split: if_splits)
  with rd have "length (pending (lr_R l')) < length (pending (lr_R l))"
    by (auto simp: LimitedReader_Read_def ReadCloser_Read_def Let_def MinRead_def
             split: if_splits)
  then show "((buf @ bs, l'), (buf, l)) \<in> measure (\<lambda>(buf, l). length (pending (lr_R l)))"
    by simp
qed

declare ReadAll_loop.simps [simp del]

definition ReadAll :: "LimitedReader \<Rightarrow> (string \<times> io_error option) \<times> LimitedReader" where
  "ReadAll l = ReadAll_loop [] l"

subsection \<open>Classifying a response\<close>

text \<open>
  The two fields of \<^verbatim>\<open>http.Response\<close> that the package reads. \<open>FromResponse\<close> takes the
  pointer \<^verbatim>\<open>res\<close> (nil is \<open>None\<close>) and returns the error together with the response as
  the call leaves it, since reading and closing change the body. The deferred
  \<^verbatim>\<open>res.Body.Close()\<close> runs when the function returns, after \<^verbatim>\<open>code.Error(details)\<close>.
\<close>

record Response =
  StatusCode :: int
  Body :: "ReadCloser option"

definition FromResponse :: "Response option \<Rightarrow> go_error option \<times> Response option" where
  "FromResponse res =
     (case res of
        None \<Rightarrow> (None, None)
      | Some r \<Rightarrow>
          let c = StatusCode r
          in if \<not> IsError c then (None, Some r)
             else
               (case Body r of
                  None \<Rightarrow> (Code_Error c [], Some r)
                | Some b \<Rightarrow>
                    let ((buf, _), l) = ReadAll (LimitReader b MaxSizeDetails);
                        details = buf;
                        result = Code_Error c details
                    in (result, Some (r\<lparr>Body := Some (ReadCloser_Close (lr_R l))\<rparr>))))"

section \<open>Properties\<close>

subsection \<open>Facts about the table\<close>

lemmas Code_defs =
  CodeNotLeader_def CodeNotAuthenticated_def CodeUnsubscribed_def CodeIncompatibleVersion_def
  CodeMalformedRequest_def CodeUnsupportedMediaType_def CodeRateLimitExceeded_def
  CodeMesosUnavailable_def CodeNotFound_def

lemmas Msg_defs =
  MsgNotLeader_def MsgAuth_def MsgUnsubscribed_def MsgVersion_def MsgMalformed_def
  MsgMediaType_def MsgRateLimit_def MsgUnavailable_def MsgNotFound_def

lemma ErrorTable_dom:
  "ErrorTable c = Some m \<Longrightarrow> c \<in> {307, 400, 409, 403, 401, 406, 404, 503, 429}"
  by (simp add: ErrorTable_def Code_defs split: if_splits)

lemma ErrorTable_IsError: "ErrorTable c = Some m \<Longrightarrow> IsError c"
  by (auto dest!: ErrorTable_dom simp: IsError_def)

lemma ErrorTable_503: "ErrorTable 503 = Some ''mesos server unavailable''"
  by (simp add: ErrorTable_def Code_defs MsgUnavailable_def)

lemma ErrorTable_499: "ErrorTable 499 = None"
  by (simp add: ErrorTable_def Code_defs)

lemma Code_Error_Some:
  "IsError c \<Longrightarrow> \<exists>e. Code_Error c d = Some (ApiError (Some e)) \<and> code e = c"
  by (simp add: Code_Error_def Let_def)

subsection \<open>What ReadAll returns on a limited reader\<close>

lemma take_length_take: "take (length (take k xs)) xs = take k xs"
  by (simp add: min_def)

lemma LimitedReader_Read_None:
  assumes "LimitedReader_Read MinRead l = ((bs, None), l')"
  shows "0 < lr_N l \<and> pending (lr_R l) \<noteq> [] \<and>
         bs = take (min (min MinRead (nat (lr_N l))) (Suc (chunk (lr_R l)))) (pending (lr_R l)) \<and>
         lr_R l' = (lr_R l)\<lparr>pending := drop (length bs) (pending (lr_R l))\<rparr> \<and>
         lr_N l' = lr_N l - int (length bs)"
  using assms
  by (auto simp: LimitedReader_Read_def ReadCloser_Read_def Let_def min_def split: if_splits)

lemma LimitedReader_Read_Some:
  assumes "LimitedReader_Read MinRead l = ((bs, Some e), l')"
  shows "bs = [] \<and> l' = l \<and> (lr_N l \<le> 0 \<or> pending (lr_R l) = [])"
  using assms
  by (auto simp: LimitedReader_Read_def ReadCloser_Read_def Let_def split: if_splits)

lemma ReadAll_loop_None:
  "LimitedReader_Read MinRead l = ((bs, None), l') \<Longrightarrow>
   ReadAll_loop buf l = ReadAll_loop (buf @ bs) l'"
  by (subst ReadAll_loop.simps) simp

lemma ReadAll_loop_Some:
  "LimitedReader_Read MinRead l = ((bs, Some e), l') \<Longrightarrow>
   ReadAll_loop buf l = ((buf @ bs, if e = EOF then None else Some e), l')"
  by (subst ReadAll_loop.simps) simp

text \<open>The bytes returned are the first \<open>lr_N l\<close> bytes of the stream, however it chunks them.\<close>

lemma ReadAll_loop_buf:
  "fst (fst (ReadAll_loop buf l)) = buf @ take (nat (lr_N l)) (pending (lr_R l))"
proof (induction buf l rule: ReadAll_loop.induct)
  case (1 buf l)
  obtain bs e l' where rd: "LimitedReader_Read MinRead l = ((bs, e), l')"
    by (metis prod.exhaust)
  show ?case
  proof (cases e)
    case None
    note rd' = rd [unfolded None]
    note f = LimitedReader_Read_None [OF rd']
    have ih: "fst (fst (ReadAll_loop (buf @ bs) l')) =
              (buf @ bs) @ take (nat (lr_N l')) (pending (lr_R l'))"
      using "1.IH" [OF rd' [symmetric] refl refl] .
    have len: "length bs \<le> nat (lr_N l)"
      using f by (auto simp: min_def)
    have "bs = take (min (min MinRead (nat (lr_N l))) (Suc (chunk (lr_R l)))) (pending (lr_R l))"
      using f by blast
    then have bs: "take (length bs) (pending (lr_R l)) = bs"
      by (simp only: take_length_take)
    have "take (length bs + (nat (lr_N l) - length bs)) (pending (lr_R l)) =
          take (length bs) (pending (lr_R l)) @
          take (nat (lr_N l) - length bs) (drop (length bs) (pending (lr_R l)))"
      by (rule take_add)
    with len bs have split: "take (nat (lr_N l)) (pending (lr_R l)) =
          bs @ take (nat (lr_N l) - length bs) (drop (length bs) (pending (lr_R l)))"
      by simp
    have "lr_N l' = lr_N l - int (length bs)"
      using f by blast
    then have n': "nat (lr_N l') = nat (lr_N l) - length bs"
      by arith
    have p': "pending (lr_R l') = drop (length bs) (pending (lr_R l))"
      using f by simp
    have "fst (fst (ReadAll_loop buf l)) = fst (fst (ReadAll_loop (buf @ bs) l'))"
      by (simp only: ReadAll_loop_None [OF rd'])
    also have "\<dots> = (buf @ bs) @ take (nat (lr_N l')) (pending (lr_R l'))"
      by (rule ih)
    also have "\<dots> = buf @ take (nat (lr_N l)) (pending (lr_R l))"
      by (simp only: n' p' split append_assoc)
    finally show ?thesis .
  next
    case (Some err)
    note rd' = rd [unfolded Some]
    note f = LimitedReader_Read_Some [OF rd']
    have "bs = []"
      using f by blast
    moreover have "take (nat (lr_N l)) (pending (lr_R l)) = []"
      using f by auto
    ultimately show ?thesis
      by (simp add: ReadAll_loop_Some [OF rd'])
  qed
qed

text \<open>Reading consumes exactly those bytes and changes nothing else of the stream.\<close>

lemma ReadAll_loop_reader:
  "lr_R (snd (ReadAll_loop buf l)) =
   (lr_R l)\<lparr>pending := drop (nat (lr_N l)) (pending (lr_R l))\<rparr>"
proof (induction buf l rule: ReadAll_loop.induct)
  case (1 buf l)
  obtain bs e l' where rd: "LimitedReader_Read MinRead l = ((bs, e), l')"
    by (metis prod.exhaust)
  show ?case
  proof (cases e)
    case None
    note rd' = rd [unfolded None]
    note f = LimitedReader_Read_None [OF rd']
    have ih: "lr_R (snd (ReadAll_loop (buf @ bs) l')) =
              (lr_R l')\<lparr>pending := drop (nat (lr_N l')) (pending (lr_R l'))\<rparr>"
      using "1.IH" [OF rd' [symmetric] refl refl] .
    have len: "length bs \<le> nat (lr_N l)"
      using f by (auto simp: min_def)
    have "lr_N l' = lr_N l - int (length bs)"
      using f by blast
    with len have n': "nat (lr_N l') + length bs = nat (lr_N l)"
      by arith
    have r': "lr_R l' = (lr_R l)\<lparr>pending := drop (length bs) (pending (lr_R l))\<rparr>"
      using f by blast
    have "drop (nat (lr_N l')) (drop (length bs) (pending (lr_R l))) =
          drop (nat (lr_N l)) (pending (lr_R l))"
      by (simp only: drop_drop n')
    then show ?thesis
      by (simp add: ReadAll_loop_None [OF rd'] ih r')
  next
    case (Some err)
    note rd' = rd [unfolded Some]
    note f = LimitedReader_Read_Some [OF rd']
    have "drop (nat (lr_N l)) (pending (lr_R l)) = pending (lr_R l)"
      using f by auto
    then show ?thesis
      using f by (simp add: ReadAll_loop_Some [OF rd'])
  qed
qed

text \<open>
  \<^verbatim>\<open>ReadAll\<close> reports a failure exactly when the stream fails before the limit is
  reached.
\<close>

lemma ReadAll_loop_err:
  "snd (fst (ReadAll_loop buf l)) =
     (if int (length (pending (lr_R l))) < lr_N l \<and> ending (lr_R l) = ReadFailure
      then Some ReadFailure else None)"
proof (induction buf l rule: ReadAll_loop.induct)
  case (1 buf l)
  obtain bs e l' where rd: "LimitedReader_Read MinRead l = ((bs, e), l')"
    by (metis prod.exhaust)
  show ?case
  proof (cases e)
    case None
    note rd' = rd [unfolded None]
    note f = LimitedReader_Read_None [OF rd']
    have ih: "snd (fst (ReadAll_loop (buf @ bs) l')) =
       (if int (length (pending (lr_R l'))) < lr_N l' \<and> ending (lr_R l') = ReadFailure
        then Some ReadFailure else None)"
      using "1.IH" [OF rd' [symmetric] refl refl] .
    have "length bs \<le> length (pending (lr_R l))"
      using f by simp
    moreover have "length (pending (lr_R l')) = length (pending (lr_R l)) - length bs"
      using f by simp
    moreover have "lr_N l' = lr_N l - int (length bs)"
      using f by blast
    ultimately have "int (length (pending (lr_R l'))) < lr_N l' \<longleftrightarrow>
                     int (length (pending (lr_R l))) < lr_N l"
      by arith
    moreover have "ending (lr_R l') = ending (lr_R l)"
      using f by simp
    ultimately show ?thesis
      by (simp add: ReadAll_loop_None [OF rd'] ih)
  next
    case (Some err)
    note rd' = rd [unfolded Some]
    from rd' show ?thesis
      by (cases "ending (lr_R l)")
         (auto simp: ReadAll_loop_Some [OF rd'] LimitedReader_Read_def ReadCloser_Read_def
               Let_def split: if_splits)
  qed
qed

lemma ReadAll_LimitReader_buf:
  "fst (fst (ReadAll (LimitReader b n))) = take (nat n) (pending b)"
  by (simp add: ReadAll_def LimitReader_def ReadAll_loop_buf)

lemma ReadAll_LimitReader_reader:
  "lr_R (snd (ReadAll (LimitReader b n))) = b\<lparr>pending := drop (nat n) (pending b)\<rparr>"
  by (simp add: ReadAll_def LimitReader_def ReadAll_loop_reader)

lemma ReadAll_LimitReader_err:
  "snd (fst (ReadAll (LimitReader b n))) =
     (if int (length (pending b)) < n \<and> ending b = ReadFailure then Some ReadFailure else None)"
  by (simp add: ReadAll_def LimitReader_def ReadAll_loop_err)

subsection \<open>The paths of FromResponse\<close>

lemma FromResponse_not_error:
  "\<not> IsError (StatusCode r) \<Longrightarrow> FromResponse (Some r) = (None, Some r)"
  by (simp add: FromResponse_def)

lemma FromResponse_no_body:
  "IsError (StatusCode r) \<Longrightarrow> Body r = None \<Longrightarrow>
   FromResponse (Some r) = (Code_Error (StatusCode r) [], Some r)"
  by (simp add: FromResponse_def)

lemma FromResponse_body:
  assumes "IsError (StatusCode r)" and "Body r = Some b"
  shows "FromResponse (Some r) =
         (Code_Error (StatusCode r) (take 4096 (pending b)),
          Some (r\<lparr>Body := Some (b\<lparr>pending := drop 4096 (pending b),
                                   closes := Suc (closes b)\<rparr>)\<rparr>))"
proof -
  obtain buf e l where ra: "ReadAll (LimitReader b MaxSizeDetails) = ((buf, e), l)"
    by (metis prod.exhaust)
  have "buf = take 4096 (pending b)"
    using ReadAll_LimitReader_buf [of b MaxSizeDetails] unfolding ra
    by (simp add: MaxSizeDetails_def)
  moreover have "lr_R l = b\<lparr>pending := drop 4096 (pending b)\<rparr>"
    using ReadAll_LimitReader_reader [of b MaxSizeDetails] unfolding ra
    by (simp add: MaxSizeDetails_def)
  ultimately show ?thesis
    using assms by (simp add: FromResponse_def ra ReadCloser_Close_def)
qed

lemma FromResponse_error_fst:
  assumes "IsError (StatusCode r)"
  shows "fst (FromResponse (Some r)) =
         Code_Error (StatusCode r)
           (case Body r of None \<Rightarrow> [] | Some b \<Rightarrow> take 4096 (pending b))"
proof (cases "Body r")
  case None
  with assms show ?thesis by (simp add: FromResponse_no_body)
next
  case (Some b)
  with assms show ?thesis by (simp add: FromResponse_body)
qed

lemma FromResponse_error_code:
  assumes "IsError (StatusCode r)"
  shows "\<exists>e. fst (FromResponse (Some r)) = Some (ApiError (Some e)) \<and> code e = StatusCode r"
  unfolding FromResponse_error_fst [OF assms] using assms by (rule Code_Error_Some)

section \<open>The claims\<close>

text \<open>
  Claim C8. For every status code \<open>c\<close>, \<open>IsError c\<close> holds if and only if \<open>c\<close> is at
  least 300; and for a code below 300, \<open>Code_Error\<close> returns nil whatever the details.
\<close>

theorem IsError_iff_ge_300:
  "(IsError c \<longleftrightarrow> c \<ge> 300) \<and> (c < 300 \<longrightarrow> Code_Error c details = None)"
  by (simp add: IsError_def Code_Error_def)

text \<open>Claim C8 at the code 299, the largest one that is not an error.\<close>

theorem IsError_iff_ge_300_witness:
  "(299::int) < 300 \<and> \<not> IsError 299 \<and> Code_Error 299 ''moved'' = None"
  using IsError_iff_ge_300 [of 299 "''moved''"] by simp

text \<open>
  Claim C3. For a code \<open>c\<close> of the error table, with canned message \<open>m\<close>, and any details
  \<open>d\<close>, \<open>Code_Error\<close> returns an error with code \<open>c\<close> whose message is \<open>m\<close> when \<open>d\<close> is
  empty and \<open>m\<close>, a colon, a space and \<open>d\<close> otherwise. For 503 the message is
  "mesos server unavailable", and "mesos server unavailable: overloaded" with the
  details "overloaded".
\<close>

theorem Code_Error_table_message:
  "(ErrorTable c = Some m \<longrightarrow>
      Code_Error c d =
        Some (ApiError (Some \<lparr>code = c, message = (if d = [] then m else m @ '': '' @ d)\<rparr>)))
   \<and> Code_Error 503 [] =
       Some (ApiError (Some \<lparr>code = 503, message = ''mesos server unavailable''\<rparr>))
   \<and> Code_Error 503 ''overloaded'' =
       Some (ApiError (Some \<lparr>code = 503, message = ''mesos server unavailable: overloaded''\<rparr>))"
proof (intro conjI impI)
  assume t: "ErrorTable c = Some m"
  then have "IsError c"
    by (rule ErrorTable_IsError)
  with t show "Code_Error c d =
        Some (ApiError (Some \<lparr>code = c, message = (if d = [] then m else m @ '': '' @ d)\<rparr>))"
    by (simp add: Code_Error_def Let_def index_string_def)
next
  show "Code_Error 503 [] =
        Some (ApiError (Some \<lparr>code = 503, message = ''mesos server unavailable''\<rparr>))"
    by (simp add: Code_Error_def Let_def index_string_def ErrorTable_503 IsError_def)
next
  show "Code_Error 503 ''overloaded'' =
       Some (ApiError (Some \<lparr>code = 503, message = ''mesos server unavailable: overloaded''\<rparr>))"
    by (simp add: Code_Error_def Let_def index_string_def ErrorTable_503 IsError_def)
qed

text \<open>Claim C3 at the table entry 429, with and without details.\<close>

theorem Code_Error_table_message_witness:
  "ErrorTable 429 = Some ''rate limited''
   \<and> Code_Error 429 ''slow down'' =
       Some (ApiError (Some \<lparr>code = 429, message = ''rate limited: slow down''\<rparr>))"
  using Code_Error_table_message [of 429 "''rate limited''" "''slow down''"]
  by (simp add: ErrorTable_def Code_defs MsgRateLimit_def)

text \<open>
  Claim C2. For an error code that is not in the table, \<open>Code_Error\<close> returns an error
  whose message is empty when the details are empty, and is a colon, a space and the
  details otherwise: the delimiter leads the message. The code 499 is such a code.
\<close>

theorem Code_Error_unrecognized_message:
  "(IsError c \<and> ErrorTable c = None \<longrightarrow>
      Code_Error c d =
        Some (ApiError (Some \<lparr>code = c, message = (if d = [] then [] else '': '' @ d)\<rparr>)))
   \<and> Code_Error 499 [] = Some (ApiError (Some \<lparr>code = 499, message = []\<rparr>))
   \<and> Code_Error 499 ''x'' = Some (ApiError (Some \<lparr>code = 499, message = '': x''\<rparr>))"
  by (simp add: Code_Error_def Let_def index_string_def ErrorTable_499 IsError_def)

text \<open>Claim C2 at the code 500, which is an error code outside the table.\<close>

theorem Code_Error_unrecognized_message_witness:
  "IsError 500 \<and> ErrorTable 500 = None
   \<and> Code_Error 500 ''boom'' = Some (ApiError (Some \<lparr>code = 500, message = '': boom''\<rparr>))"
  using Code_Error_unrecognized_message [of 500 "''boom''"]
  by (simp add: IsError_def ErrorTable_def Code_defs)

text \<open>
  Claim C6. \<open>Temporary\<close> on a classified error is true exactly when its code is 429 or
  503; it is false for 404 and for 403.
\<close>

theorem Temporary_iff_429_or_503:
  "Temporary (Some e) = Inr (code e = 429 \<or> code e = 503)
   \<and> Temporary (Some \<lparr>code = 404, message = m\<rparr>) = Inr False
   \<and> Temporary (Some \<lparr>code = 403, message = m\<rparr>) = Inr False"
  by (simp add: Temporary_def CodeRateLimitExceeded_def CodeMesosUnavailable_def)

text \<open>
  Claim C5. \<open>SubscriptionLoss\<close> on a classified error is true exactly when the error's
  code is in the set of codes as it is at the call: with the initial set that is the
  code 403 alone, and after a code is added the codes of the set and the added one.
\<close>

theorem SubscriptionLoss_iff_member:
  "SubscriptionLoss s (Some e) = Inr (code e \<in> dom s)
   \<and> SubscriptionLoss CodesIndicatingSubscriptionLoss (Some e) = Inr (code e = 403)
   \<and> SubscriptionLoss (add_code c s) (Some e) = Inr (code e = c \<or> code e \<in> dom s)"
  by (auto simp: SubscriptionLoss_def CodesIndicatingSubscriptionLoss_def mk_codes_def
        add_code_def CodeUnsubscribed_def dom_def split: option.splits)

text \<open>
  Claim C7. \<open>Matches c err\<close> returns true exactly when \<open>err\<close> is nil and \<open>c\<close> is not an
  error code, or \<open>err\<close> is an error of this package whose code is \<open>c\<close>. It returns false
  for nil and an error code, for an error of another kind, and for an error of this
  package with another code.
\<close>

theorem Matches_true_iff:
  "(Matches c err = Inr True \<longleftrightarrow>
      (err = None \<and> \<not> IsError c) \<or> (\<exists>e. err = Some (ApiError (Some e)) \<and> code e = c))
   \<and> (IsError c \<longrightarrow> Matches c None = Inr False)
   \<and> Matches c (Some (OtherError s)) = Inr False
   \<and> (code e' \<noteq> c \<longrightarrow> Matches c (Some (ApiError (Some e'))) = Inr False)"
  by (auto simp: Matches_def split: option.splits go_error.splits)

text \<open>
  Claim C7 at the code 404: a 404 error matches, nil does not, an error carrying 403 does
  not.
\<close>

theorem Matches_true_iff_witness:
  "IsError 404 \<and> code \<lparr>code = 403, message = ''no''\<rparr> \<noteq> 404
   \<and> Matches 404 (Some (ApiError (Some \<lparr>code = 404, message = ''gone''\<rparr>))) = Inr True
   \<and> Matches 404 None = Inr False
   \<and> Matches 404 (Some (ApiError (Some \<lparr>code = 403, message = ''no''\<rparr>))) = Inr False"
  using Matches_true_iff [of 404 "Some (ApiError (Some \<lparr>code = 404, message = ''gone''\<rparr>))"
      "''other''" "\<lparr>code = 403, message = ''no''\<rparr>"]
  by (simp add: IsError_def)

text \<open>
  Claim C4. \<open>FromResponse\<close> returns nil exactly when the response is nil or its status
  code is not an error code; for a response with a status code of at least 300 it returns
  an error of this package that carries the status code.
\<close>

theorem FromResponse_nil_iff:
  "(fst (FromResponse res) = None \<longleftrightarrow>
      res = None \<or> (\<exists>r. res = Some r \<and> \<not> IsError (StatusCode r)))
   \<and> (res = Some r \<and> StatusCode r \<ge> 300 \<longrightarrow>
        (\<exists>e. fst (FromResponse res) = Some (ApiError (Some e)) \<and> code e = StatusCode r))"
proof (cases res)
  case None
  then show ?thesis
    by (simp add: FromResponse_def)
next
  case (Some r')
  show ?thesis
  proof (cases "IsError (StatusCode r')")
    case True
    from FromResponse_error_code [OF True] Some True show ?thesis
      by auto
  next
    case False
    with Some show ?thesis
      by (auto simp: FromResponse_not_error IsError_def)
  qed
qed

text \<open>Claim C4 at a response with status 404 and no body.\<close>

theorem FromResponse_nil_iff_witness:
  "(404::int) \<ge> 300
   \<and> fst (FromResponse (Some \<lparr>StatusCode = 404, Body = None\<rparr>)) \<noteq> None
   \<and> (\<exists>e. fst (FromResponse (Some \<lparr>StatusCode = 404, Body = None\<rparr>)) = Some (ApiError (Some e))
          \<and> code e = 404)"
  using FromResponse_nil_iff [of "Some \<lparr>StatusCode = 404, Body = None\<rparr>"
      "\<lparr>StatusCode = 404, Body = None\<rparr>"]
  by (simp add: IsError_def)

text \<open>
  Claim C10. For every response, the status code of the response matches what
  \<open>FromResponse\<close> returns for it. Below 300 the result is nil, and nil matches the code
  because the code is not an error code; from 300 on the result is an error of this
  package that carries exactly the status code, and that error matches the code.
\<close>

theorem FromResponse_Matches_roundtrip:
  "Matches (StatusCode r) (fst (FromResponse (Some r))) = Inr True
   \<and> (StatusCode r1 < 300 \<longrightarrow>
        fst (FromResponse (Some r1)) = None
        \<and> Matches (StatusCode r1) None = Inr True)
   \<and> (StatusCode r2 \<ge> 300 \<longrightarrow>
        (\<exists>e. fst (FromResponse (Some r2)) = Some (ApiError (Some e))
             \<and> code e = StatusCode r2
             \<and> Matches (StatusCode r2) (Some (ApiError (Some e))) = Inr True))"
proof (intro conjI impI)
  show "Matches (StatusCode r) (fst (FromResponse (Some r))) = Inr True"
  proof (cases "IsError (StatusCode r)")
    case True
    from FromResponse_error_code [OF True] show ?thesis
      by (auto simp: Matches_def)
  next
    case False
    then show ?thesis
      by (simp add: FromResponse_not_error Matches_def)
  qed
next
  assume "StatusCode r1 < 300"
  then have n: "\<not> IsError (StatusCode r1)"
    by (simp add: IsError_def)
  then show "fst (FromResponse (Some r1)) = None"
    by (simp add: FromResponse_not_error)
  from n show "Matches (StatusCode r1) None = Inr True"
    by (simp add: Matches_def)
next
  assume "StatusCode r2 \<ge> 300"
  then have "IsError (StatusCode r2)"
    by (simp add: IsError_def)
  from FromResponse_error_code [OF this] obtain e where
    e: "fst (FromResponse (Some r2)) = Some (ApiError (Some e))" "code e = StatusCode r2"
    by blast
  then have "Matches (StatusCode r2) (Some (ApiError (Some e))) = Inr True"
    by (simp add: Matches_def)
  with e show "\<exists>e. fst (FromResponse (Some r2)) = Some (ApiError (Some e))
             \<and> code e = StatusCode r2
             \<and> Matches (StatusCode r2) (Some (ApiError (Some e))) = Inr True"
    by blast
qed

text \<open>
  Claim C10 at a response with status 200 and a body, and at a response with status 409
  and no body.
\<close>

theorem FromResponse_Matches_roundtrip_witness:
  "(200::int) < 300 \<and> (409::int) \<ge> 300
   \<and> fst (FromResponse (Some \<lparr>StatusCode = 200,
        Body = Some \<lparr>pending = ''fine'', ending = EOF, chunk = 3, closes = 0\<rparr>\<rparr>)) = None
   \<and> Matches 200 None = Inr True
   \<and> (\<exists>e. fst (FromResponse (Some \<lparr>StatusCode = 409, Body = None\<rparr>)) = Some (ApiError (Some e))
          \<and> code e = 409
          \<and> Matches 409 (Some (ApiError (Some e))) = Inr True)
   \<and> Matches 409 (fst (FromResponse (Some \<lparr>StatusCode = 409, Body = None\<rparr>))) = Inr True"
  using FromResponse_Matches_roundtrip
    [of "\<lparr>StatusCode = 409, Body = None\<rparr>"
        "\<lparr>StatusCode = 200,
          Body = Some \<lparr>pending = ''fine'', ending = EOF, chunk = 3, closes = 0\<rparr>\<rparr>"
        "\<lparr>StatusCode = 409, Body = None\<rparr>"]
  by simp

text \<open>
  Claim C9. For a response with an error status and a body, the details are the first
  4096 bytes of the body, so at most 4096 bytes, and the error is returned with the status
  code; a body of 10000 bytes gives details of length 4096; and when reading the body
  fails, which \<^verbatim>\<open>ReadAll\<close> reports, the error is returned all the same, with the bytes
  read before the failure as details.
\<close>

theorem FromResponse_details_bounded:
  "(IsError (StatusCode r) \<and> Body r = Some b \<longrightarrow>
      fst (FromResponse (Some r)) = Code_Error (StatusCode r) (take 4096 (pending b))
      \<and> length (take 4096 (pending b)) \<le> 4096
      \<and> (\<exists>e. fst (FromResponse (Some r)) = Some (ApiError (Some e)) \<and> code e = StatusCode r))
   \<and> (IsError (StatusCode r1) \<and> Body r1 = Some b1 \<and> length (pending b1) = 10000 \<longrightarrow>
      (\<exists>d. fst (FromResponse (Some r1)) = Code_Error (StatusCode r1) d \<and> length d = 4096))
   \<and> (IsError (StatusCode r2) \<and> Body r2 = Some b2 \<and> ending b2 = ReadFailure
        \<and> length (pending b2) < 4096 \<longrightarrow>
      snd (fst (ReadAll (LimitReader b2 MaxSizeDetails))) = Some ReadFailure
      \<and> fst (FromResponse (Some r2)) = Code_Error (StatusCode r2) (pending b2)
      \<and> (\<exists>e. fst (FromResponse (Some r2)) = Some (ApiError (Some e)) \<and> code e = StatusCode r2))"
proof (intro conjI impI)
  assume a: "IsError (StatusCode r) \<and> Body r = Some b"
  then show "fst (FromResponse (Some r)) = Code_Error (StatusCode r) (take 4096 (pending b))"
    by (simp add: FromResponse_body)
  show "length (take 4096 (pending b)) \<le> 4096"
    by simp
  from a show "\<exists>e. fst (FromResponse (Some r)) = Some (ApiError (Some e)) \<and> code e = StatusCode r"
    by (simp add: FromResponse_error_code)
next
  assume a: "IsError (StatusCode r1) \<and> Body r1 = Some b1 \<and> length (pending b1) = 10000"
  then have "fst (FromResponse (Some r1)) = Code_Error (StatusCode r1) (take 4096 (pending b1))"
    by (simp add: FromResponse_body)
  moreover from a have "length (take 4096 (pending b1)) = 4096"
    by simp
  ultimately show "\<exists>d. fst (FromResponse (Some r1)) = Code_Error (StatusCode r1) d \<and> length d = 4096"
    by blast
next
  assume a: "IsError (StatusCode r2) \<and> Body r2 = Some b2 \<and> ending b2 = ReadFailure
        \<and> length (pending b2) < 4096"
  then show "snd (fst (ReadAll (LimitReader b2 MaxSizeDetails))) = Some ReadFailure"
    by (simp add: ReadAll_LimitReader_err MaxSizeDetails_def)
  from a show "fst (FromResponse (Some r2)) = Code_Error (StatusCode r2) (pending b2)"
    by (simp add: FromResponse_body)
  from a show "\<exists>e. fst (FromResponse (Some r2)) = Some (ApiError (Some e)) \<and> code e = StatusCode r2"
    by (simp add: FromResponse_error_code)
qed

text \<open>
  Claim C9 at three responses: status 503 with the body "down"; status 500 with a body of
  10000 bytes; status 404 with the body "gone" on a stream that fails once the four bytes
  are read.
\<close>

theorem FromResponse_details_bounded_witness:
  "IsError 503 \<and> IsError 500 \<and> IsError 404
   \<and> length (replicate 10000 CHR ''a'') = 10000
   \<and> fst (FromResponse (Some \<lparr>StatusCode = 503,
        Body = Some \<lparr>pending = ''down'', ending = EOF, chunk = 1, closes = 0\<rparr>\<rparr>)) =
      Code_Error 503 ''down''
   \<and> (\<exists>d. fst (FromResponse (Some \<lparr>StatusCode = 500,
        Body = Some \<lparr>pending = replicate 10000 CHR ''a'', ending = EOF, chunk = 99,
                     closes = 0\<rparr>\<rparr>)) = Code_Error 500 d \<and> length d = 4096)
   \<and> snd (fst (ReadAll (LimitReader
        \<lparr>pending = ''gone'', ending = ReadFailure, chunk = 0, closes = 0\<rparr> MaxSizeDetails))) =
      Some ReadFailure
   \<and> fst (FromResponse (Some \<lparr>StatusCode = 404,
        Body = Some \<lparr>pending = ''gone'', ending = ReadFailure, chunk = 0, closes = 0\<rparr>\<rparr>)) =
      Code_Error 404 ''gone''"
  using FromResponse_details_bounded
    [of "\<lparr>StatusCode = 503,
          Body = Some \<lparr>pending = ''down'', ending = EOF, chunk = 1, closes = 0\<rparr>\<rparr>"
        "\<lparr>pending = ''down'', ending = EOF, chunk = 1, closes = 0\<rparr>"
        "\<lparr>StatusCode = 500,
          Body = Some \<lparr>pending = replicate 10000 CHR ''a'', ending = EOF, chunk = 99,
                       closes = 0\<rparr>\<rparr>"
        "\<lparr>pending = replicate 10000 CHR ''a'', ending = EOF, chunk = 99, closes = 0\<rparr>"
        "\<lparr>StatusCode = 404,
          Body = Some \<lparr>pending = ''gone'', ending = ReadFailure, chunk = 0, closes = 0\<rparr>\<rparr>"
        "\<lparr>pending = ''gone'', ending = ReadFailure, chunk = 0, closes = 0\<rparr>"]
  by (simp add: IsError_def)

text \<open>
  Claim C1 as stated fails: a response with status 200 and a body leaves
  \<open>FromResponse\<close> with the body as it was, read by nobody and closed zero times.
\<close>

theorem FromResponse_success_body_not_closed:
  "FromResponse (Some \<lparr>StatusCode = 200,
      Body = Some \<lparr>pending = ''ok'', ending = EOF, chunk = 0, closes = 0\<rparr>\<rparr>) =
   (None, Some \<lparr>StatusCode = 200,
      Body = Some \<lparr>pending = ''ok'', ending = EOF, chunk = 0, closes = 0\<rparr>\<rparr>)"
  by (simp add: FromResponse_def IsError_def)

text \<open>
  Claim C1, amended. For a response with an error status (at least 300) and a body, the
  call closes the body exactly once, whether or not reading it fails, after taking at
  most 4096 bytes from it; for a response whose status is not an error the call returns
  nil and leaves the body as it was, neither read nor closed.
\<close>

theorem FromResponse_closes_body_once_on_error:
  "(IsError (StatusCode r) \<and> Body r = Some b \<longrightarrow>
      snd (FromResponse (Some r)) =
        Some (r\<lparr>Body := Some (b\<lparr>pending := drop 4096 (pending b), closes := Suc (closes b)\<rparr>)\<rparr>))
   \<and> (\<not> IsError (StatusCode r') \<longrightarrow> FromResponse (Some r') = (None, Some r'))"
  by (simp add: FromResponse_body FromResponse_not_error)

text \<open>
  Claim C1, amended, at a response with status 503 whose body fails after four bytes, and
  at a response with status 204.
\<close>

theorem FromResponse_closes_body_once_on_error_witness:
  "IsError 503 \<and> \<not> IsError 204
   \<and> snd (FromResponse (Some \<lparr>StatusCode = 503,
        Body = Some \<lparr>pending = ''fail'', ending = ReadFailure, chunk = 1, closes = 0\<rparr>\<rparr>)) =
      Some \<lparr>StatusCode = 503,
        Body = Some \<lparr>pending = [], ending = ReadFailure, chunk = 1, closes = 1\<rparr>\<rparr>
   \<and> FromResponse (Some \<lparr>StatusCode = 204,
        Body = Some \<lparr>pending = [], ending = EOF, chunk = 0, closes = 0\<rparr>\<rparr>) =
      (None, Some \<lparr>StatusCode = 204,
        Body = Some \<lparr>pending = [], ending = EOF, chunk = 0, closes = 0\<rparr>\<rparr>)"
  using FromResponse_closes_body_once_on_error
    [of "\<lparr>StatusCode = 503,
          Body = Some \<lparr>pending = ''fail'', ending = ReadFailure, chunk = 1, closes = 0\<rparr>\<rparr>"
        "\<lparr>pending = ''fail'', ending = ReadFailure, chunk = 1, closes = 0\<rparr>"
        "\<lparr>StatusCode = 204,
          Body = Some \<lparr>pending = [], ending = EOF, chunk = 0, closes = 0\<rparr>\<rparr>"]
  by (simp add: IsError_def)

end
